theory Spec2Isabelle
  imports Main
begin

section \<open>The parsed document (type Sansay, collector.go lines 34-52)\<close>

text \<open>
  The XML decoder fills a tree database / table / row / field. The collector reads the
  table names, the rows, and the name attribute and character data of every field; the
  character data of the enclosing elements is never read and is left out of the records.
  A missing name attribute leaves the Go zero value, the empty string.
\<close>

record Field =
  field_Text :: string
  field_Name :: string

record Row =
  row_Field :: "Field list"

record Table =
  table_Name :: string
  table_Row :: "Row list"

record Database =
  database_Name :: string
  database_Table :: "Table list"

record Sansay =
  sansay_Database :: Database

definition Sansay0 :: Sansay where
  "Sansay0 = \<lparr>sansay_Database = \<lparr>database_Name = [], database_Table = []\<rparr>\<rparr>"

section \<open>The trunk record (type Trunk, lines 54-66) and its reflection view\<close>

record Trunk =
  TrunkId :: string
  Alias :: string
  Fqdn :: string
  NumOrig :: string
  NumTerm :: string
  Cps :: string
  NumPeak :: string
  TotalCLZ :: string
  NumCLZCps :: string
  TotalLimit :: string
  CpsLimit :: string

text \<open>\<open>Trunk{}\<close>: every attribute is the empty string.\<close>

definition Trunk0 :: Trunk where
  "Trunk0 = \<lparr>TrunkId = [], Alias = [], Fqdn = [], NumOrig = [], NumTerm = [], Cps = [],
     NumPeak = [], TotalCLZ = [], NumCLZCps = [], TotalLimit = [], CpsLimit = []\<rparr>"

text \<open>
  \<open>reflect\<close> sees the struct type as its declared fields, in order. A value of
  \<open>StructField\<close> stands for the \<open>reflect.Value\<close> of one attribute of the
  record behind the pointer.
\<close>

datatype StructField =
  F_TrunkId | F_Alias | F_Fqdn | F_NumOrig | F_NumTerm | F_Cps | F_NumPeak
  | F_TotalCLZ | F_NumCLZCps | F_TotalLimit | F_CpsLimit

fun fieldName :: "StructField \<Rightarrow> string" where
  "fieldName F_TrunkId = ''TrunkId''"
| "fieldName F_Alias = ''Alias''"
| "fieldName F_Fqdn = ''Fqdn''"
| "fieldName F_NumOrig = ''NumOrig''"
| "fieldName F_NumTerm = ''NumTerm''"
| "fieldName F_Cps = ''Cps''"
| "fieldName F_NumPeak = ''NumPeak''"
| "fieldName F_TotalCLZ = ''TotalCLZ''"
| "fieldName F_NumCLZCps = ''NumCLZCps''"
| "fieldName F_TotalLimit = ''TotalLimit''"
| "fieldName F_CpsLimit = ''CpsLimit''"

definition trunkFields :: "StructField list" where
  "trunkFields = [F_TrunkId, F_Alias, F_Fqdn, F_NumOrig, F_NumTerm, F_Cps, F_NumPeak,
     F_TotalCLZ, F_NumCLZCps, F_TotalLimit, F_CpsLimit]"

text \<open>\<open>rv.FieldByName(name)\<close>: the field with exactly this name; \<open>None\<close> is the
  invalid \<open>reflect.Value\<close>.\<close>

definition FieldByName :: "string \<Rightarrow> StructField option" where
  "FieldByName name = find (\<lambda>f. fieldName f = name) trunkFields"

datatype Kind = KString | KStruct | KPtr

text \<open>Every attribute of Trunk is declared \<open>string\<close>.\<close>

fun fieldKind :: "StructField \<Rightarrow> Kind" where
  "fieldKind f = KString"

text \<open>\<open>fv.CanSet()\<close>: the record is reached through a pointer, so a field is settable
  when it is exported, that is when its name starts with an upper-case letter.\<close>

definition CanSet :: "StructField \<Rightarrow> bool" where
  "CanSet f = (case fieldName f of [] \<Rightarrow> False
     | c # cs \<Rightarrow> (65::nat) \<le> of_char c \<and> of_char c \<le> (90::nat))"

text \<open>\<open>fv.String()\<close> and \<open>fv.SetString(value)\<close>.\<close>

fun String :: "StructField \<Rightarrow> Trunk \<Rightarrow> string" where
  "String F_TrunkId t = TrunkId t"
| "String F_Alias t = Alias t"
| "String F_Fqdn t = Fqdn t"
| "String F_NumOrig t = NumOrig t"
| "String F_NumTerm t = NumTerm t"
| "String F_Cps t = Cps t"
| "String F_NumPeak t = NumPeak t"
| "String F_TotalCLZ t = TotalCLZ t"
| "String F_NumCLZCps t = NumCLZCps t"
| "String F_TotalLimit t = TotalLimit t"
| "String F_CpsLimit t = CpsLimit t"

fun SetString :: "StructField \<Rightarrow> string \<Rightarrow> Trunk \<Rightarrow> Trunk" where
  "SetString F_TrunkId v t = t\<lparr>TrunkId := v\<rparr>"
| "SetString F_Alias v t = t\<lparr>Alias := v\<rparr>"
| "SetString F_Fqdn v t = t\<lparr>Fqdn := v\<rparr>"
| "SetString F_NumOrig v t = t\<lparr>NumOrig := v\<rparr>"
| "SetString F_NumTerm v t = t\<lparr>NumTerm := v\<rparr>"
| "SetString F_Cps v t = t\<lparr>Cps := v\<rparr>"
| "SetString F_NumPeak v t = t\<lparr>NumPeak := v\<rparr>"
| "SetString F_TotalCLZ v t = t\<lparr>TotalCLZ := v\<rparr>"
| "SetString F_NumCLZCps v t = t\<lparr>NumCLZCps := v\<rparr>"
| "SetString F_TotalLimit v t = t\<lparr>TotalLimit := v\<rparr>"
| "SetString F_CpsLimit v t = t\<lparr>CpsLimit := v\<rparr>"

section \<open>Errors, panics and strings\<close>

text \<open>
  An \<open>error\<close> value is either built by the collector itself (\<open>errors.New\<close>,
  \<open>fmt.Errorf\<close>: the formatted message), or handed back by a library call (URL parsing,
  HTTP, XML decoding, \<open>strconv.ParseFloat\<close>), whose text the collector never inspects,
  or one of the errors the metrics library finds in a descriptor or in label values.
  A run-time panic is kept apart from the returned errors: indexing out of range, and
  the \<open>panic(err)\<close> of a \<open>Must\<close> constructor.
\<close>

datatype error =
  Errorf string
  | LibError string
  | InvalidMetricName string
  | InvalidLabelName string
  | DuplicateLabelNames
  | InconsistentCardinality
  | InvalidLabelValue string

datatype panic = IndexOutOfRange | PanicError error

text \<open>
  Strings are byte strings. \<open>unicode.ToUpper\<close> on a rune up to \<open>MaxASCII\<close> subtracts
  32 from the letters a to z and returns every other rune as it is.
\<close>

definition isASCII :: "char \<Rightarrow> bool" where
  "isASCII c = ((of_char c :: nat) < 128)"

definition ToUpperASCII :: "char \<Rightarrow> char" where
  "ToUpperASCII c =
     (if (97::nat) \<le> of_char c \<and> of_char c \<le> (122::nat) then char_of (of_char c - (32::nat)) else c)"

definition ToLowerASCII :: "char \<Rightarrow> char" where
  "ToLowerASCII c =
     (if (65::nat) \<le> of_char c \<and> of_char c \<le> (90::nat) then char_of (of_char c + (32::nat)) else c)"

text \<open>
  The first three statements of setField and getField (lines 212-214, 247-249):
  \<open>nme := []rune(name); nme[0] = unicode.ToUpper(nme[0]); name = string(nme)\<close>.
  Indexing the empty rune slice panics. On a name of ASCII bytes the conversion to runes
  and back is the identity and only the first byte can change. For a name with a byte
  outside ASCII the result depends on the UTF-8 decoder and the Unicode case tables of
  the Go library, which are not part of this repository: it is the parameter \<open>U\<close>.
\<close>

definition upperFirst :: "(string \<Rightarrow> string) \<Rightarrow> string \<Rightarrow> panic + string" where
  "upperFirst U name =
     (case name of
        [] \<Rightarrow> Inl IndexOutOfRange
      | c # cs \<Rightarrow> Inr (if list_all isASCII name then ToUpperASCII c # cs else U name))"

text \<open>\<open>strings.ToLower\<close>, applied by the collector to eight ASCII literals only.\<close>

definition ToLower :: "string \<Rightarrow> string" where
  "ToLower s = map ToLowerASCII s"

text \<open>\<open>strings.HasPrefix\<close>.\<close>

definition HasPrefix :: "string \<Rightarrow> string \<Rightarrow> bool" where
  "HasPrefix s pre = (length pre \<le> length s \<and> take (length pre) s = pre)"

text \<open>Letters and digits of ASCII.\<close>

definition isAlpha :: "char \<Rightarrow> bool" where
  "isAlpha c = ((65 \<le> (of_char c :: nat) \<and> (of_char c :: nat) \<le> 90) \<or>
                (97 \<le> (of_char c :: nat) \<and> (of_char c :: nat) \<le> 122))"

definition isDigit :: "char \<Rightarrow> bool" where
  "isDigit c = (48 \<le> (of_char c :: nat) \<and> (of_char c :: nat) \<le> 57)"

text \<open>
  \<open>utf8.ValidString\<close>: the bytes are a sequence of well-formed UTF-8 encodings. A byte
  below 128 stands alone; a lead byte 194 to 223 takes one continuation byte (128 to
  191), a lead byte 224 to 239 two, a lead byte 240 to 244 three, where the first
  continuation byte is narrowed after 224 (from 160), 237 (to 159), 240 (from 144) and
  244 (to 143); every other byte is ill-formed.
\<close>

definition isCont :: "nat \<Rightarrow> bool" where
  "isCont b = (128 \<le> b \<and> b \<le> 191)"

definition isSecond :: "nat \<Rightarrow> nat \<Rightarrow> bool" where
  "isSecond a b =
     (if a = 224 then 160 \<le> b \<and> b \<le> 191
      else if a = 237 then 128 \<le> b \<and> b \<le> 159
      else if a = 240 then 144 \<le> b \<and> b \<le> 191
      else if a = 244 then 128 \<le> b \<and> b \<le> 143
      else isCont b)"

fun validBytes :: "nat list \<Rightarrow> bool" where
  "validBytes [] = True"
| "validBytes (a # bs) =
     (if a < 128 then validBytes bs
      else if 194 \<le> a \<and> a \<le> 223 then
        (case bs of
           b # r \<Rightarrow> isCont b \<and> validBytes r
         | _ \<Rightarrow> False)
      else if 224 \<le> a \<and> a \<le> 239 then
        (case bs of
           b # c # r \<Rightarrow> isSecond a b \<and> isCont c \<and> validBytes r
         | _ \<Rightarrow> False)
      else if 240 \<le> a \<and> a \<le> 244 then
        (case bs of
           b # c # d # r \<Rightarrow> isSecond a b \<and> isCont c \<and> isCont d \<and> validBytes r
         | _ \<Rightarrow> False)
      else False)"

definition ValidString :: "string \<Rightarrow> bool" where
  "ValidString s = validBytes (map of_char s)"

section \<open>Metrics\<close>

text \<open>
  The channel \<open>ch\<close> is the list of metrics sent to it, in order. A metric is either a
  constant metric (descriptor, value type, value, label values) or an invalid metric
  (descriptor, error). The type \<open>'f\<close> stands for \<open>float64\<close>; the collector never
  computes with these values.

  The metrics library checks what it is given. \<open>NewDesc\<close> leaves an error in the
  descriptor when the name is not a metric name (a letter, underscore or colon, then
  letters, digits, underscores or colons), when a label name is not a label name (a
  letter or underscore, then letters, digits or underscores, not starting with two
  underscores) or when two label names are equal; the collector passes no constant
  labels, and the check that the name is valid UTF-8 follows the check that it is a
  metric name, which leaves ASCII only. \<open>NewConstMetric\<close> returns that error, or the
  error of label values that are not as many as the label names or not valid UTF-8, and
  \<open>MustNewConstMetric\<close> panics with the error. \<open>NewInvalidMetric\<close> checks nothing.
\<close>

record Desc =
  fqName :: string
  helpText :: string
  variableLabels :: "string list"

definition NewDesc :: "string \<Rightarrow> string \<Rightarrow> string list \<Rightarrow> Desc" where
  "NewDesc n h ls = \<lparr>fqName = n, helpText = h, variableLabels = ls\<rparr>"

datatype ValueType = CounterValue | GaugeValue | UntypedValue

datatype 'f Metric =
  ConstMetric Desc ValueType 'f "string list"
  | InvalidMetric Desc error

definition IsValidMetricName :: "string \<Rightarrow> bool" where
  "IsValidMetricName n =
     (case n of
        [] \<Rightarrow> False
      | c # cs \<Rightarrow>
          (isAlpha c \<or> c = CHR ''_'' \<or> c = CHR '':'') \<and>
          list_all (\<lambda>b. isAlpha b \<or> b = CHR ''_'' \<or> b = CHR '':'' \<or> isDigit b) cs)"

definition checkLabelName :: "string \<Rightarrow> bool" where
  "checkLabelName l =
     ((case l of
         [] \<Rightarrow> False
       | c # cs \<Rightarrow>
           (isAlpha c \<or> c = CHR ''_'') \<and>
           list_all (\<lambda>b. isAlpha b \<or> b = CHR ''_'' \<or> isDigit b) cs) \<and>
      \<not> HasPrefix l ''__'')"

text \<open>The error field of the descriptor \<open>NewDesc\<close> returns.\<close>

definition descErr :: "Desc \<Rightarrow> error option" where
  "descErr d =
     (if \<not> IsValidMetricName (fqName d) then Some (InvalidMetricName (fqName d))
      else case filter (\<lambda>l. \<not> checkLabelName l) (variableLabels d) of
             l # ls \<Rightarrow> Some (InvalidLabelName l)
           | [] \<Rightarrow> if distinct (variableLabels d) then None else Some DuplicateLabelNames)"

definition validateLabelValues :: "string list \<Rightarrow> nat \<Rightarrow> error option" where
  "validateLabelValues vals expected =
     (if length vals \<noteq> expected then Some InconsistentCardinality
      else case filter (\<lambda>v. \<not> ValidString v) vals of
             v # vs \<Rightarrow> Some (InvalidLabelValue v)
           | [] \<Rightarrow> None)"

definition NewConstMetric :: "Desc \<Rightarrow> ValueType \<Rightarrow> 'f \<Rightarrow> string list \<Rightarrow> error + 'f Metric" where
  "NewConstMetric d vt v lvs =
     (case descErr d of
        Some err \<Rightarrow> Inl err
      | None \<Rightarrow>
          (case validateLabelValues lvs (length (variableLabels d)) of
             Some err \<Rightarrow> Inl err
           | None \<Rightarrow> Inr (ConstMetric d vt v lvs)))"

definition MustNewConstMetric :: "Desc \<Rightarrow> ValueType \<Rightarrow> 'f \<Rightarrow> string list \<Rightarrow> panic + 'f Metric" where
  "MustNewConstMetric d vt v lvs =
     (case NewConstMetric d vt v lvs of
        Inl err \<Rightarrow> Inl (PanicError err)
      | Inr m \<Rightarrow> Inr m)"

definition NewInvalidMetric :: "Desc \<Rightarrow> error \<Rightarrow> 'f Metric" where
  "NewInvalidMetric d e = InvalidMetric d e"

text \<open>The error marker every failure is reported with (lines 85, 107, 113, 193, 198).\<close>

definition sansay_error :: "error \<Rightarrow> 'f Metric" where
  "sansay_error err = NewInvalidMetric (NewDesc ''sansay_error'' ''Error scraping target'' []) err"

section \<open>setField and getField (lines 210-270)\<close>

text \<open>
  Both functions receive \<open>&trunk\<close>, so both are state transformers on the record behind
  the pointer: the result carries the record after the call. The first test of each
  (\<open>v\<close> is a pointer to a struct) holds for every call of the collector, whose argument
  is always a pointer to a Trunk, so its error branch has no input here.
  The outer \<open>Inl\<close> is a panic; \<open>Some err\<close> is the returned error.
\<close>

definition setField :: "(string \<Rightarrow> string) \<Rightarrow> Trunk \<Rightarrow> string \<Rightarrow> string \<Rightarrow> panic + (Trunk \<times> error option)" where
  "setField U v name0 val =
     (case upperFirst U name0 of
        Inl p \<Rightarrow> Inl p
      | Inr name \<Rightarrow>
          (case FieldByName name of
             None \<Rightarrow> Inr (v, Some (Errorf (''not a field name: '' @ name)))
           | Some fv \<Rightarrow>
               if \<not> CanSet fv then Inr (v, Some (Errorf (''cannot set field '' @ name)))
               else if fieldKind fv \<noteq> KString then Inr (v, Some (Errorf (name @ '' is not a string field'')))
               else Inr (SetString fv val v, None)))"

definition getField :: "(string \<Rightarrow> string) \<Rightarrow> Trunk \<Rightarrow> string \<Rightarrow> panic + (Trunk \<times> string \<times> error option)" where
  "getField U v name0 =
     (case upperFirst U name0 of
        Inl p \<Rightarrow> Inl p
      | Inr name \<Rightarrow>
          (case FieldByName name of
             None \<Rightarrow> Inr (v, [], Some (Errorf (''not a field name: '' @ name)))
           | Some fv \<Rightarrow>
               if fieldKind fv \<noteq> KString then Inr (v, [], Some (Errorf (name @ '' is not a string field'')))
               else Inr (v, String fv v, None)))"

section \<open>addMetric and addTrunkMetrics (lines 168-207)\<close>

text \<open>
  \<open>strconv.ParseFloat(value, 64)\<close> is the parameter \<open>ParseFloat\<close>: \<open>Inr\<close> the
  number, \<open>Inl\<close> the error. Each function returns the metrics it sent, in order, next
  to its result; \<open>Inl\<close> in the result is the panic that ended the call.
\<close>

definition addMetric ::
  "(string \<Rightarrow> error + 'f) \<Rightarrow> string \<Rightarrow> string \<Rightarrow> 'f Metric list \<times> (panic + error option)" where
  "addMetric ParseFloat name val =
     (let metricName = ''sansay_'' @ name in
      case ParseFloat val of
        Inl err \<Rightarrow> ([], Inr (Some err))
      | Inr floatValue \<Rightarrow>
          (case MustNewConstMetric (NewDesc metricName [] []) GaugeValue floatValue [] of
             Inl p \<Rightarrow> ([], Inl p)
           | Inr m \<Rightarrow> ([m], Inr None)))"

text \<open>Sending \<open>ms\<close> and then running the rest of a loop.\<close>

definition sendThen :: "'m list \<Rightarrow> 'm list \<times> 'r \<Rightarrow> 'm list \<times> 'r" where
  "sendThen ms rest = (ms @ fst rest, snd rest)"

text \<open>The loop of addTrunkMetrics over its list of counter names; \<open>continue\<close> is the
  recursive call on the remaining names.\<close>

fun addTrunkMetrics_loop ::
  "(string \<Rightarrow> string) \<Rightarrow> (string \<Rightarrow> error + 'f) \<Rightarrow> Trunk \<Rightarrow> string list \<Rightarrow> 'f Metric list \<times> (panic + Trunk)" where
  "addTrunkMetrics_loop U ParseFloat trunk [] = ([], Inr trunk)"
| "addTrunkMetrics_loop U ParseFloat trunk (metric # rest) =
     (let metricName = ''sansay_trunk_'' @ ToLower metric in
      case getField U trunk metric of
        Inl p \<Rightarrow> ([], Inl p)
      | Inr (trunk', val, Some err) \<Rightarrow>
          sendThen [sansay_error err] (addTrunkMetrics_loop U ParseFloat trunk' rest)
      | Inr (trunk', val, None) \<Rightarrow>
          (case ParseFloat val of
             Inl err \<Rightarrow>
               sendThen [sansay_error err] (addTrunkMetrics_loop U ParseFloat trunk' rest)
           | Inr floatValue \<Rightarrow>
               (case MustNewConstMetric (NewDesc metricName [] [''trunkgroup'', ''alias''])
                       GaugeValue floatValue [TrunkId trunk', Alias trunk'] of
                  Inl p \<Rightarrow> ([], Inl p)
                | Inr m \<Rightarrow> sendThen [m] (addTrunkMetrics_loop U ParseFloat trunk' rest))))"

definition trunkMetricNames :: "string list" where
  "trunkMetricNames = [''NumOrig'', ''NumTerm'', ''Cps'', ''NumPeak'', ''TotalCLZ'',
     ''NumCLZCps'', ''TotalLimit'', ''CpsLimit'']"

definition addTrunkMetrics ::
  "(string \<Rightarrow> string) \<Rightarrow> (string \<Rightarrow> error + 'f) \<Rightarrow> Trunk \<Rightarrow> 'f Metric list \<times> (panic + error option)" where
  "addTrunkMetrics U ParseFloat trunk =
     (case addTrunkMetrics_loop U ParseFloat trunk trunkMetricNames of
        (ms, Inl p) \<Rightarrow> (ms, Inl p)
      | (ms, Inr trunk') \<Rightarrow> (ms, Inr None))"

section \<open>ScrapeTarget (lines 126-166)\<close>

text \<open>
  The network and the XML decoder are the environment of the fetch: URL parsing, building
  the request, the round trip of the client (the response carries the status code and
  what \<open>ioutil.ReadAll\<close> makes of the body), and \<open>xml.Unmarshal\<close>, which returns the
  document it filled next to its error. The logger receives one line per event.
\<close>

record Response =
  StatusCode :: int
  Body :: "string \<times> error option"

record Env =
  url_Parse :: "string \<Rightarrow> error option"
  http_NewRequest :: "string \<Rightarrow> error option"
  client_Do :: "string \<Rightarrow> string \<Rightarrow> string \<Rightarrow> error + Response"
  xml_Unmarshal :: "string \<Rightarrow> Sansay \<times> error option"

datatype LogLevel = LevelInfo | LevelError

datatype LogValue = ErrValue error | IntValue int

type_synonym LogLine = "LogLevel \<times> string \<times> string \<times> LogValue"

text \<open>Lines 129-131: the value of \<open>target\<close> that every later statement uses.\<close>

definition ScrapeTarget_target :: "string \<Rightarrow> string" where
  "ScrapeTarget_target target =
     (if \<not> HasPrefix target ''http://'' \<and> \<not> HasPrefix target ''https://''
      then ''http://'' @ target else target)"

definition ScrapeTarget :: "Env \<Rightarrow> string \<Rightarrow> string \<Rightarrow> string \<Rightarrow> LogLine list \<times> Sansay \<times> error option" where
  "ScrapeTarget env target0 username password =
     (let sansay = Sansay0;
          target = ScrapeTarget_target target0 in
      case url_Parse env target of
        Some err \<Rightarrow> ([(LevelError, ''Could not parse target URL'', ''err'', ErrValue err)], sansay, Some err)
      | None \<Rightarrow>
     (case http_NewRequest env target of
        Some err \<Rightarrow> ([(LevelError, ''Error creating HTTP request'', ''err'', ErrValue err)], sansay, Some err)
      | None \<Rightarrow>
     (case client_Do env target username password of
        Inl err \<Rightarrow> ([(LevelError, ''Error for HTTP request'', ''err'', ErrValue err)], sansay, Some err)
      | Inr resp \<Rightarrow>
     (let log1 = [(LevelInfo, ''Received HTTP response'', ''status_code'', IntValue (StatusCode resp))] in
      case Body resp of
        (body, Some err) \<Rightarrow>
          (log1 @ [(LevelInfo, ''Failed to read HTTP response body'', ''err'', ErrValue err)], sansay, Some err)
      | (body, None) \<Rightarrow>
     (case xml_Unmarshal env body of
        (sansay', Some err) \<Rightarrow>
          (log1 @ [(LevelError, ''Error parsing XML'', ''err'', ErrValue err)], sansay', Some err)
      | (sansay', None) \<Rightarrow> (log1, sansay', None))))))"

section \<open>Collect (lines 80-124)\<close>

text \<open>
  The nested loops of Collect, innermost first. A panic ends the call at once: the
  metrics sent before it stay on the channel and nothing follows them.
\<close>

definition seqPanic :: "'m list \<times> panic option \<Rightarrow> 'm list \<times> panic option \<Rightarrow> 'm list \<times> panic option" where
  "seqPanic a b = (case snd a of Some p \<Rightarrow> a | None \<Rightarrow> (fst a @ fst b, snd b))"

text \<open>Lines 92-99: the switch on the field name inside a system_stat row; the error
  addMetric returns is dropped, its panic is not.\<close>

definition Collect_statField ::
  "(string \<Rightarrow> error + 'f) \<Rightarrow> Field \<Rightarrow> 'f Metric list \<times> panic option" where
  "Collect_statField ParseFloat field =
     (if field_Name field = ''ha_pre_state'' then ([], None)
      else if field_Name field = ''ha_current_state'' then ([], None)
      else case addMetric ParseFloat (field_Name field) (field_Text field) of
             (ms, Inl p) \<Rightarrow> (ms, Some p)
           | (ms, Inr err) \<Rightarrow> (ms, None))"

fun Collect_statFields ::
  "(string \<Rightarrow> error + 'f) \<Rightarrow> Field list \<Rightarrow> 'f Metric list \<times> panic option" where
  "Collect_statFields ParseFloat [] = ([], None)"
| "Collect_statFields ParseFloat (field # flds) =
     seqPanic (Collect_statField ParseFloat field) (Collect_statFields ParseFloat flds)"

fun Collect_statRows ::
  "(string \<Rightarrow> error + 'f) \<Rightarrow> Row list \<Rightarrow> 'f Metric list \<times> panic option" where
  "Collect_statRows ParseFloat [] = ([], None)"
| "Collect_statRows ParseFloat (row # rows) =
     seqPanic (Collect_statFields ParseFloat (row_Field row)) (Collect_statRows ParseFloat rows)"

text \<open>Lines 104-109: every field of a trunk row goes through setField; an error is
  reported and the loop goes on.\<close>

fun Collect_setFields ::
  "(string \<Rightarrow> string) \<Rightarrow> Trunk \<Rightarrow> Field list \<Rightarrow> 'f Metric list \<times> (panic + Trunk)" where
  "Collect_setFields U trunk [] = ([], Inr trunk)"
| "Collect_setFields U trunk (field # flds) =
     (case setField U trunk (field_Name field) (field_Text field) of
        Inl p \<Rightarrow> ([], Inl p)
      | Inr (trunk', Some err) \<Rightarrow> sendThen [sansay_error err] (Collect_setFields U trunk' flds)
      | Inr (trunk', None) \<Rightarrow> Collect_setFields U trunk' flds)"

text \<open>Lines 103-115: one row of the trunk table.\<close>

definition Collect_trunkRow ::
  "(string \<Rightarrow> string) \<Rightarrow> (string \<Rightarrow> error + 'f) \<Rightarrow> Row \<Rightarrow> 'f Metric list \<times> panic option" where
  "Collect_trunkRow U ParseFloat row =
     (case Collect_setFields U Trunk0 (row_Field row) of
        (ms, Inl p) \<Rightarrow> (ms, Some p)
      | (ms, Inr trunk) \<Rightarrow>
          if Fqdn trunk = ''Group'' then
            (case addTrunkMetrics U ParseFloat trunk of
               (ms', Inl p) \<Rightarrow> (ms @ ms', Some p)
             | (ms', Inr (Some err)) \<Rightarrow> (ms @ ms' @ [sansay_error err], None)
             | (ms', Inr None) \<Rightarrow> (ms @ ms', None))
          else (ms, None))"

fun Collect_trunkRows ::
  "(string \<Rightarrow> string) \<Rightarrow> (string \<Rightarrow> error + 'f) \<Rightarrow> Row list \<Rightarrow> 'f Metric list \<times> panic option" where
  "Collect_trunkRows U ParseFloat [] = ([], None)"
| "Collect_trunkRows U ParseFloat (row # rows) =
     seqPanic (Collect_trunkRow U ParseFloat row) (Collect_trunkRows U ParseFloat rows)"

text \<open>Lines 89-117: the switch on the table name.\<close>

definition Collect_table ::
  "(string \<Rightarrow> string) \<Rightarrow> (string \<Rightarrow> error + 'f) \<Rightarrow> Table \<Rightarrow> 'f Metric list \<times> panic option" where
  "Collect_table U ParseFloat table =
     (if table_Name table = ''system_stat'' then Collect_statRows ParseFloat (table_Row table)
      else if table_Name table = ''XBResourceRealTimeStatList''
        then Collect_trunkRows U ParseFloat (table_Row table)
      else ([], None))"

fun Collect_tables ::
  "(string \<Rightarrow> string) \<Rightarrow> (string \<Rightarrow> error + 'f) \<Rightarrow> Table list \<Rightarrow> 'f Metric list \<times> panic option" where
  "Collect_tables U ParseFloat [] = ([], None)"
| "Collect_tables U ParseFloat (table # tables) =
     seqPanic (Collect_table U ParseFloat table) (Collect_tables U ParseFloat tables)"

record collector =
  target :: string
  username :: string
  password :: string

text \<open>
  Collect: \<open>elapsed\<close> is \<open>time.Since(start).Seconds()\<close> at line 123. The result is the
  log, the metrics sent to the channel, and the panic that ended the call if one did.
\<close>

definition Collect ::
  "Env \<Rightarrow> (string \<Rightarrow> string) \<Rightarrow> (string \<Rightarrow> error + 'f) \<Rightarrow> 'f \<Rightarrow> collector
     \<Rightarrow> LogLine list \<times> 'f Metric list \<times> panic option" where
  "Collect env U ParseFloat elapsed c =
     (case ScrapeTarget env (target c) (username c) (password c) of
        (log, sansay, Some err) \<Rightarrow>
          (log @ [(LevelInfo, ''Error scraping target'', ''err'', ErrValue err)],
           [sansay_error err], None)
      | (log, sansay, None) \<Rightarrow>
          (case Collect_tables U ParseFloat (database_Table (sansay_Database sansay)) of
             (ms, Some p) \<Rightarrow> (log, ms, Some p)
           | (ms, None) \<Rightarrow>
               (case MustNewConstMetric
                       (NewDesc ''sansay_scrape_duration_seconds''
                          ''Total sansay time scrape took (walk and processing).'' [])
                       GaugeValue elapsed [] of
                  Inl p \<Rightarrow> (log, ms, Some p)
                | Inr m \<Rightarrow> (log, ms @ [m], None))))"

section \<open>Vocabulary of the properties\<close>

text \<open>What a metric on the channel is: a gauge, or an error marker.\<close>

fun isGauge :: "'f Metric \<Rightarrow> bool" where
  "isGauge (ConstMetric d vt v lvs) = (vt = GaugeValue)"
| "isGauge (InvalidMetric d e) = False"

fun isInvalid :: "'f Metric \<Rightarrow> bool" where
  "isInvalid (ConstMetric d vt v lvs) = False"
| "isInvalid (InvalidMetric d e) = True"


text \<open>
  The eight counters of a trunk record as the specification lists them: the lower-cased
  counter name and the text held by the attribute. The metric a counter yields is a
  labelled gauge when the text parses and an error marker carrying the parse error
  otherwise.
\<close>

definition trunkCounters :: "Trunk \<Rightarrow> (string \<times> string) list" where
  "trunkCounters t =
     [(''numorig'', NumOrig t), (''numterm'', NumTerm t), (''cps'', Cps t),
      (''numpeak'', NumPeak t), (''totalclz'', TotalCLZ t), (''numclzcps'', NumCLZCps t),
      (''totallimit'', TotalLimit t), (''cpslimit'', CpsLimit t)]"

definition trunkCounterMetric :: "(string \<Rightarrow> error + 'f) \<Rightarrow> Trunk \<Rightarrow> string \<times> string \<Rightarrow> 'f Metric" where
  "trunkCounterMetric ParseFloat t c =
     (case ParseFloat (snd c) of
        Inr x \<Rightarrow>
          ConstMetric
            \<lparr>fqName = ''sansay_trunk_'' @ fst c, helpText = [],
              variableLabels = [''trunkgroup'', ''alias'']\<rparr>
            GaugeValue x [TrunkId t, Alias t]
      | Inl err \<Rightarrow>
          InvalidMetric
            \<lparr>fqName = ''sansay_error'', helpText = ''Error scraping target'', variableLabels = []\<rparr>
            err)"


definition statEmits :: "(string \<Rightarrow> error + 'f) \<Rightarrow> Field \<Rightarrow> bool" where
  "statEmits ParseFloat f =
     (field_Name f \<noteq> ''ha_pre_state'' \<and> field_Name f \<noteq> ''ha_current_state'' \<and>
      \<not> isl (ParseFloat (field_Text f)))"


definition errorMarker :: "error \<Rightarrow> 'f Metric" where
  "errorMarker err =
     InvalidMetric
       \<lparr>fqName = ''sansay_error'', helpText = ''Error scraping target'', variableLabels = []\<rparr> err"

text \<open>
  The specification speaks of a target that has a scheme. It is read here as the URI
  syntax does: a letter, then letters, digits, plus, minus or dot, then a colon and two
  slashes.
\<close>

definition isSchemeChar :: "char \<Rightarrow> bool" where
  "isSchemeChar c = (isAlpha c \<or> (48 \<le> (of_char c :: nat) \<and> (of_char c :: nat) \<le> 57) \<or>
                     c = CHR ''+'' \<or> c = CHR ''-'' \<or> c = CHR ''.'')"

definition spec_hasScheme :: "string \<Rightarrow> bool" where
  "spec_hasScheme s =
     (case takeWhile isSchemeChar s of
        [] \<Rightarrow> False
      | c # cs \<Rightarrow> isAlpha c \<and> HasPrefix (dropWhile isSchemeChar s) ''://'')"

text \<open>An environment whose responses carry other status codes, \<open>g\<close> applied to each,
  and are the same otherwise.\<close>

definition withStatus :: "(int \<Rightarrow> int) \<Rightarrow> Env \<Rightarrow> Env" where
  "withStatus g env =
     env\<lparr>client_Do := (\<lambda>tgt u p.
            case client_Do env tgt u p of
              Inl err \<Rightarrow> Inl err
            | Inr resp \<Rightarrow> Inr (resp\<lparr>StatusCode := g (StatusCode resp)\<rparr>))\<rparr>"




section \<open>Example inputs\<close>

text \<open>A number parser that knows two numerals; a trunk row with one numeric counter,
  one with all eight, and one whose only field has no name; a system_stat row with a
  field name that is no metric name; a row that names Fqdn twice; tables and documents
  made of them; and two environments: a target that refuses the connection and one that
  answers with a document.\<close>

definition exampleParseFloat :: "string \<Rightarrow> error + int" where
  "exampleParseFloat s =
     (if s = ''10'' then Inr 10 else if s = ''35'' then Inr 35
      else Inl (LibError ''strconv.ParseFloat: invalid syntax''))"

definition exampleTrunkRow :: Row where
  "exampleTrunkRow = \<lparr>row_Field =
     [\<lparr>field_Text = ''T1'', field_Name = ''trunkId''\<rparr>,
      \<lparr>field_Text = ''A1'', field_Name = ''alias''\<rparr>,
      \<lparr>field_Text = ''Group'', field_Name = ''fqdn''\<rparr>,
      \<lparr>field_Text = ''10'', field_Name = ''numOrig''\<rparr>,
      \<lparr>field_Text = ''n/a'', field_Name = ''cps''\<rparr>]\<rparr>"

definition exampleTrunk :: Trunk where
  "exampleTrunk = \<lparr>TrunkId = ''T1'', Alias = ''A1'', Fqdn = ''Group'', NumOrig = ''10'',
     NumTerm = [], Cps = ''n/a'', NumPeak = [], TotalCLZ = [], NumCLZCps = [], TotalLimit = [],
     CpsLimit = []\<rparr>"

definition exampleGroupRow :: Row where
  "exampleGroupRow = \<lparr>row_Field =
     [\<lparr>field_Text = ''T1'', field_Name = ''trunkId''\<rparr>,
      \<lparr>field_Text = ''A1'', field_Name = ''alias''\<rparr>,
      \<lparr>field_Text = ''Group'', field_Name = ''fqdn''\<rparr>,
      \<lparr>field_Text = ''10'', field_Name = ''numOrig''\<rparr>,
      \<lparr>field_Text = ''10'', field_Name = ''numTerm''\<rparr>,
      \<lparr>field_Text = ''10'', field_Name = ''cps''\<rparr>,
      \<lparr>field_Text = ''35'', field_Name = ''numPeak''\<rparr>,
      \<lparr>field_Text = ''35'', field_Name = ''totalCLZ''\<rparr>,
      \<lparr>field_Text = ''10'', field_Name = ''numCLZCps''\<rparr>,
      \<lparr>field_Text = ''35'', field_Name = ''totalLimit''\<rparr>,
      \<lparr>field_Text = ''10'', field_Name = ''cpsLimit''\<rparr>]\<rparr>"

definition exampleGroupTrunk :: Trunk where
  "exampleGroupTrunk = \<lparr>TrunkId = ''T1'', Alias = ''A1'', Fqdn = ''Group'', NumOrig = ''10'',
     NumTerm = ''10'', Cps = ''10'', NumPeak = ''35'', TotalCLZ = ''35'', NumCLZCps = ''10'',
     TotalLimit = ''35'', CpsLimit = ''10''\<rparr>"

definition exampleNamelessRow :: Row where
  "exampleNamelessRow = \<lparr>row_Field = [\<lparr>field_Text = ''7'', field_Name = []\<rparr>]\<rparr>"

definition exampleBrokenTrunkTable :: Table where
  "exampleBrokenTrunkTable =
     \<lparr>table_Name = ''XBResourceRealTimeStatList'',
       table_Row = [exampleNamelessRow, exampleGroupRow]\<rparr>"

definition exampleBadNameRow :: Row where
  "exampleBadNameRow = \<lparr>row_Field =
     [\<lparr>field_Text = ''10'', field_Name = ''cpu-load''\<rparr>,
      \<lparr>field_Text = ''35'', field_Name = ''cpu''\<rparr>]\<rparr>"

definition exampleBadNameTable :: Table where
  "exampleBadNameTable = \<lparr>table_Name = ''system_stat'', table_Row = [exampleBadNameRow]\<rparr>"

definition exampleDuplicateRow :: "Field list" where
  "exampleDuplicateRow =
     [\<lparr>field_Text = ''Group'', field_Name = ''fqdn''\<rparr>,
      \<lparr>field_Text = ''Member'', field_Name = ''fqdn''\<rparr>]"

definition exampleStatRow :: Row where
  "exampleStatRow = \<lparr>row_Field =
     [\<lparr>field_Text = ''35'', field_Name = ''cpu''\<rparr>,
      \<lparr>field_Text = ''active'', field_Name = ''ha_current_state''\<rparr>,
      \<lparr>field_Text = ''n/a'', field_Name = ''load''\<rparr>]\<rparr>"

definition exampleStatTable :: Table where
  "exampleStatTable = \<lparr>table_Name = ''system_stat'', table_Row = [exampleStatRow]\<rparr>"

definition exampleTrunkTable :: Table where
  "exampleTrunkTable = \<lparr>table_Name = ''XBResourceRealTimeStatList'', table_Row = [exampleTrunkRow]\<rparr>"

definition exampleOtherTable :: Table where
  "exampleOtherTable = \<lparr>table_Name = ''cdr_stat'', table_Row = [exampleTrunkRow, exampleStatRow]\<rparr>"



definition exampleEnvDown :: Env where
  "exampleEnvDown =
     \<lparr>url_Parse = (\<lambda>tgt. None), http_NewRequest = (\<lambda>tgt. None),
       client_Do = (\<lambda>tgt u p. Inl (LibError ''dial tcp: connection refused'')),
       xml_Unmarshal = (\<lambda>body. (Sansay0, None))\<rparr>"


definition exampleCollector :: collector where
  "exampleCollector = \<lparr>target = ''sbc.example.net'', username = ''admin'', password = ''secret''\<rparr>"

section \<open>Evaluation rules and basic facts\<close>

lemmas string_eval =
  upperFirst_def isASCII_def ToUpperASCII_def ToLowerASCII_def ToLower_def char_of_def
  bit_Suc_0_iff

lemmas name_eval =
  IsValidMetricName_def checkLabelName_def isAlpha_def isDigit_def HasPrefix_def

lemma upperFirst_Nil: "upperFirst U [] = Inl IndexOutOfRange"
  by (simp add: upperFirst_def)

lemma upperFirst_Inr_iff: "(\<exists>n. upperFirst U name = Inr n) \<longleftrightarrow> name \<noteq> []"
  by (cases name) (simp_all add: upperFirst_def)

lemma FieldByName_fieldName: "FieldByName (fieldName f) = Some f"
  by (cases f) (simp_all add: FieldByName_def trunkFields_def)

lemma FieldByName_Some: "FieldByName n = Some f \<Longrightarrow> fieldName f = n"
  by (auto simp: FieldByName_def dest: find_Some_iff[THEN iffD1])

lemma CanSet_all: "CanSet f"
  by (cases f) (simp_all add: CanSet_def)

lemma String_SetString: "String g (SetString f v t) = (if g = f then v else String g t)"
  by (cases f; cases g; simp)

lemma setField_match:
  "upperFirst U name = Inr (fieldName f) \<Longrightarrow> setField U t name v = Inr (SetString f v t, None)"
  by (simp add: setField_def FieldByName_fieldName CanSet_all)

lemma setField_nomatch:
  "upperFirst U name = Inr n \<Longrightarrow> FieldByName n = None \<Longrightarrow>
   setField U t name v = Inr (t, Some (Errorf (''not a field name: '' @ n)))"
  by (simp add: setField_def)

lemma getField_match:
  "upperFirst U name = Inr (fieldName f) \<Longrightarrow> getField U t name = Inr (t, String f t, None)"
  by (simp add: getField_def FieldByName_fieldName)

lemma getField_nomatch:
  "upperFirst U name = Inr n \<Longrightarrow> FieldByName n = None \<Longrightarrow>
   getField U t name = Inr (t, [], Some (Errorf (''not a field name: '' @ n)))"
  by (simp add: getField_def)

section \<open>What the metrics library accepts\<close>


lemma MustNewConstMetric_unlabelled:
  "MustNewConstMetric (NewDesc n h []) vt v [] =
     (if IsValidMetricName n
      then Inr (ConstMetric \<lparr>fqName = n, helpText = h, variableLabels = []\<rparr> vt v [])
      else Inl (PanicError (InvalidMetricName n)))"
  by (simp add: MustNewConstMetric_def NewConstMetric_def NewDesc_def descErr_def
      validateLabelValues_def)

lemma MustNewConstMetric_trunk:
  assumes "IsValidMetricName n" and "ValidString a" and "ValidString b"
  shows "MustNewConstMetric (NewDesc n h [''trunkgroup'', ''alias'']) vt v [a, b] =
     Inr (ConstMetric \<lparr>fqName = n, helpText = h, variableLabels = [''trunkgroup'', ''alias'']\<rparr>
            vt v [a, b])"
  using assms
  by (simp add: MustNewConstMetric_def NewConstMetric_def NewDesc_def descErr_def
      validateLabelValues_def checkLabelName_def isAlpha_def isDigit_def HasPrefix_def)


lemma trunk_names_valid:
  "IsValidMetricName ''sansay_trunk_numorig''"
  "IsValidMetricName ''sansay_trunk_numterm''"
  "IsValidMetricName ''sansay_trunk_cps''"
  "IsValidMetricName ''sansay_trunk_numpeak''"
  "IsValidMetricName ''sansay_trunk_totalclz''"
  "IsValidMetricName ''sansay_trunk_numclzcps''"
  "IsValidMetricName ''sansay_trunk_totallimit''"
  "IsValidMetricName ''sansay_trunk_cpslimit''"
  by (simp_all add: name_eval)

lemma validBytes_ascii: "list_all (\<lambda>b. b < 128) bs \<Longrightarrow> validBytes bs"
  by (induction bs) simp_all

lemma ValidString_ascii: "list_all isASCII s \<Longrightarrow> ValidString s"
  by (simp add: ValidString_def validBytes_ascii list_all_iff isASCII_def)


section \<open>Rows of system_stat\<close>

lemma seqPanic_Nil_left: "seqPanic ([], None) b = b"
  by (simp add: seqPanic_def)

lemma seqPanic_assoc: "seqPanic (seqPanic a b) c = seqPanic a (seqPanic b c)"
  by (cases a; cases b; cases c) (auto simp: seqPanic_def split: option.splits)

lemma seqPanic_None: "snd (seqPanic a b) = None \<longleftrightarrow> snd a = None \<and> snd b = None"
  by (cases "snd a") (simp_all add: seqPanic_def)





text \<open>
  C2. The claim: in every row of a table named system_stat, every field that is not
  excluded and whose text parses yields exactly one gauge sansay_<field name>. The code
  does so only while the field names are metric names. On the row [cpu-load = 10,
  cpu = 35] addMetric panics in MustNewConstMetric on the first field: no gauge is sent
  for it, none for the well-named field after it, and the table ends in the panic.
\<close>

theorem invalid_metric_name_panics:
  "statEmits exampleParseFloat \<lparr>field_Text = ''10'', field_Name = ''cpu-load''\<rparr> \<and>
   addMetric exampleParseFloat ''cpu-load'' ''10'' =
     ([], Inl (PanicError (InvalidMetricName ''sansay_cpu-load''))) \<and>
   Collect_statFields exampleParseFloat (row_Field exampleBadNameRow) =
     ([], Some (PanicError (InvalidMetricName ''sansay_cpu-load''))) \<and>
   Collect_table U exampleParseFloat exampleBadNameTable =
     ([], Some (PanicError (InvalidMetricName ''sansay_cpu-load'')))"
  by (simp add: statEmits_def exampleParseFloat_def addMetric_def MustNewConstMetric_unlabelled
      name_eval exampleBadNameRow_def exampleBadNameTable_def Collect_table_def
      Collect_statField_def seqPanic_def)

section \<open>Trunk rows\<close>

lemma sendThen_pair: "sendThen ms (ms', r) = (ms @ ms', r)"
  by (simp add: sendThen_def)

lemma getField_counters:
  "getField U t ''NumOrig'' = Inr (t, NumOrig t, None)"
  "getField U t ''NumTerm'' = Inr (t, NumTerm t, None)"
  "getField U t ''Cps'' = Inr (t, Cps t, None)"
  "getField U t ''NumPeak'' = Inr (t, NumPeak t, None)"
  "getField U t ''TotalCLZ'' = Inr (t, TotalCLZ t, None)"
  "getField U t ''NumCLZCps'' = Inr (t, NumCLZCps t, None)"
  "getField U t ''TotalLimit'' = Inr (t, TotalLimit t, None)"
  "getField U t ''CpsLimit'' = Inr (t, CpsLimit t, None)"
  by (simp_all add: getField_def string_eval FieldByName_def trunkFields_def)

lemma ToLower_counters:
  "ToLower ''NumOrig'' = ''numorig''"
  "ToLower ''NumTerm'' = ''numterm''"
  "ToLower ''Cps'' = ''cps''"
  "ToLower ''NumPeak'' = ''numpeak''"
  "ToLower ''TotalCLZ'' = ''totalclz''"
  "ToLower ''NumCLZCps'' = ''numclzcps''"
  "ToLower ''TotalLimit'' = ''totallimit''"
  "ToLower ''CpsLimit'' = ''cpslimit''"
  by (simp_all add: string_eval)

lemma counter_names_valid:
  "IsValidMetricName (''sansay_trunk_'' @ ToLower ''NumOrig'')"
  "IsValidMetricName (''sansay_trunk_'' @ ToLower ''NumTerm'')"
  "IsValidMetricName (''sansay_trunk_'' @ ToLower ''Cps'')"
  "IsValidMetricName (''sansay_trunk_'' @ ToLower ''NumPeak'')"
  "IsValidMetricName (''sansay_trunk_'' @ ToLower ''TotalCLZ'')"
  "IsValidMetricName (''sansay_trunk_'' @ ToLower ''NumCLZCps'')"
  "IsValidMetricName (''sansay_trunk_'' @ ToLower ''TotalLimit'')"
  "IsValidMetricName (''sansay_trunk_'' @ ToLower ''CpsLimit'')"
  by (simp_all add: ToLower_counters trunk_names_valid)

text \<open>One round of the counter loop, for a record whose identifier and alias are valid
  UTF-8.\<close>

lemma addTrunkMetrics_loop_step:
  assumes "getField U t m = Inr (t, s, None)"
    and "IsValidMetricName (''sansay_trunk_'' @ ToLower m)"
    and "ValidString (TrunkId t)" and "ValidString (Alias t)"
  shows "addTrunkMetrics_loop U pf t (m # rest) =
         sendThen [trunkCounterMetric pf t (ToLower m, s)] (addTrunkMetrics_loop U pf t rest)"
proof (cases "pf s")
  case (Inl err)
  with assms(1) show ?thesis
    by (simp add: trunkCounterMetric_def sansay_error_def NewInvalidMetric_def NewDesc_def)
next
  case (Inr x)
  have "MustNewConstMetric (NewDesc (''sansay_trunk_'' @ ToLower m) [] [''trunkgroup'', ''alias''])
          GaugeValue x [TrunkId t, Alias t] =
        Inr (ConstMetric
          \<lparr>fqName = ''sansay_trunk_'' @ ToLower m, helpText = [],
            variableLabels = [''trunkgroup'', ''alias'']\<rparr> GaugeValue x [TrunkId t, Alias t])"
    by (rule MustNewConstMetric_trunk[OF assms(2,3,4)])
  with assms(1) Inr show ?thesis
    by (simp add: trunkCounterMetric_def del: append.simps)
qed

lemma addTrunkMetrics_loop_char:
  assumes a: "ValidString (TrunkId t)" and b: "ValidString (Alias t)"
  shows "addTrunkMetrics_loop U pf t trunkMetricNames =
     (map (trunkCounterMetric pf t) (trunkCounters t), Inr t)"
  unfolding trunkMetricNames_def trunkCounters_def
  by (simp only:
        addTrunkMetrics_loop_step[OF getField_counters(1) counter_names_valid(1) a b]
        addTrunkMetrics_loop_step[OF getField_counters(2) counter_names_valid(2) a b]
        addTrunkMetrics_loop_step[OF getField_counters(3) counter_names_valid(3) a b]
        addTrunkMetrics_loop_step[OF getField_counters(4) counter_names_valid(4) a b]
        addTrunkMetrics_loop_step[OF getField_counters(5) counter_names_valid(5) a b]
        addTrunkMetrics_loop_step[OF getField_counters(6) counter_names_valid(6) a b]
        addTrunkMetrics_loop_step[OF getField_counters(7) counter_names_valid(7) a b]
        addTrunkMetrics_loop_step[OF getField_counters(8) counter_names_valid(8) a b]
        addTrunkMetrics_loop.simps(1) ToLower_counters sendThen_pair list.map append.simps)

lemma addTrunkMetrics_char:
  assumes "ValidString (TrunkId t)" and "ValidString (Alias t)"
  shows "addTrunkMetrics U pf t = (map (trunkCounterMetric pf t) (trunkCounters t), Inr None)"
  by (simp add: addTrunkMetrics_def addTrunkMetrics_loop_char[OF assms])

text \<open>Assembling a row sends error markers only.\<close>

lemma Collect_setFields_errors:
  fixes es :: "'f Metric list"
  shows "Collect_setFields U t fs = (es, r) \<Longrightarrow> \<exists>errs. es = map errorMarker errs"
proof (induction fs arbitrary: t es r)
  case Nil
  then show ?case by simp
next
  case (Cons f fs)
  show ?case
  proof (cases "setField U t (field_Name f) (field_Text f)")
    case (Inl p)
    with Cons.prems show ?thesis by simp
  next
    case (Inr b)
    obtain t' eo where b: "b = (t', eo)" by (cases b)
    obtain es' :: "'f Metric list" and r' where rec: "Collect_setFields U t' fs = (es', r')"
      by (cases "Collect_setFields U t' fs :: 'f Metric list \<times> (panic + Trunk)")
    from Cons.IH[OF rec] obtain errs where ih: "es' = map errorMarker errs" by blast
    show ?thesis
    proof (cases eo)
      case None
      with Cons.prems Inr b rec ih show ?thesis by auto
    next
      case (Some e)
      with Cons.prems Inr b rec ih have "es = map errorMarker (e # errs)"
        by (simp add: sendThen_def sansay_error_def NewInvalidMetric_def NewDesc_def errorMarker_def)
      then show ?thesis by blast
    qed
  qed
qed

lemma errorMarkers_filters:
  "filter isGauge (map errorMarker errs) = [] \<and>
   filter isInvalid (map errorMarker errs) = map errorMarker errs"
  by (induction errs) (simp_all add: errorMarker_def)

lemma counter_counts:
  "length (filter isGauge (map (trunkCounterMetric pf t) cs)) +
     length (filter (\<lambda>c. isl (pf (snd c))) cs) = length cs \<and>
   length (filter isInvalid (map (trunkCounterMetric pf t) cs)) =
     length (filter (\<lambda>c. isl (pf (snd c))) cs)"
  by (induction cs) (auto simp: trunkCounterMetric_def split: sum.splits)

text \<open>
  What one row of the trunk table sends when it is reached: the error markers \<open>es\<close> of
  its assembly and no gauge; nothing more when the assembly panics or the assembled
  \<open>Fqdn\<close> is not "Group"; otherwise, the identifier and alias being valid UTF-8, the
  eight counters in order, each as its labelled gauge when its text parses and as one
  error marker when it does not.
\<close>

lemma trunk_row_metrics:
  fixes es :: "'f Metric list" and pf :: "string \<Rightarrow> error + 'f"
  assumes "Collect_setFields U Trunk0 (row_Field row) = (es, r)"
  shows "filter isGauge es = [] \<and>
     (\<forall>p. r = Inl p \<longrightarrow> Collect_trunkRow U pf row = (es, Some p)) \<and>
     (\<forall>t. r = Inr t \<and> Fqdn t \<noteq> ''Group'' \<longrightarrow> Collect_trunkRow U pf row = (es, None)) \<and>
     (\<forall>t. r = Inr t \<and> Fqdn t = ''Group'' \<and> ValidString (TrunkId t) \<and> ValidString (Alias t) \<longrightarrow>
        Collect_trunkRow U pf row = (es @ map (trunkCounterMetric pf t) (trunkCounters t), None) \<and>
        length (filter isGauge (fst (Collect_trunkRow U pf row))) +
          length (filter (\<lambda>c. isl (pf (snd c))) (trunkCounters t)) = 8 \<and>
        length (filter isInvalid (fst (Collect_trunkRow U pf row))) =
          length es + length (filter (\<lambda>c. isl (pf (snd c))) (trunkCounters t)))"
proof -
  from Collect_setFields_errors[OF assms] obtain errs where "es = map errorMarker errs" by blast
  then have es: "filter isGauge es = []" "filter isInvalid es = es"
    by (simp_all add: errorMarkers_filters)
  have panic: "Collect_trunkRow U pf row = (es, Some p)" if "r = Inl p" for p
    using assms that by (simp add: Collect_trunkRow_def)
  have other: "Collect_trunkRow U pf row = (es, None)" if "r = Inr t" "Fqdn t \<noteq> ''Group''" for t
    using assms that by (simp add: Collect_trunkRow_def)
  have grp: "Collect_trunkRow U pf row = (es @ map (trunkCounterMetric pf t) (trunkCounters t), None)"
    if "r = Inr t" "Fqdn t = ''Group''" "ValidString (TrunkId t)" "ValidString (Alias t)" for t
    using assms that by (simp add: Collect_trunkRow_def addTrunkMetrics_char)
  have len: "length (trunkCounters t) = 8" for t
    by (simp add: trunkCounters_def)
  have cnt1: "length (filter isGauge (es @ map (trunkCounterMetric pf t) (trunkCounters t))) +
          length (filter (\<lambda>c. isl (pf (snd c))) (trunkCounters t)) = 8" for t
    using counter_counts[of pf t "trunkCounters t"] es by (simp add: len)
  have cnt2: "length (filter isInvalid (es @ map (trunkCounterMetric pf t) (trunkCounters t))) =
          length es + length (filter (\<lambda>c. isl (pf (snd c))) (trunkCounters t))" for t
    using counter_counts[of pf t "trunkCounters t"] es by simp
  show ?thesis
    using es(1) panic other grp cnt1 cnt2 by simp
qed

text \<open>The wire names of the eleven attributes.\<close>

lemma setField_wire:
  "setField U t ''trunkId'' v = Inr (t\<lparr>TrunkId := v\<rparr>, None)"
  "setField U t ''alias'' v = Inr (t\<lparr>Alias := v\<rparr>, None)"
  "setField U t ''fqdn'' v = Inr (t\<lparr>Fqdn := v\<rparr>, None)"
  "setField U t ''numOrig'' v = Inr (t\<lparr>NumOrig := v\<rparr>, None)"
  "setField U t ''numTerm'' v = Inr (t\<lparr>NumTerm := v\<rparr>, None)"
  "setField U t ''cps'' v = Inr (t\<lparr>Cps := v\<rparr>, None)"
  "setField U t ''numPeak'' v = Inr (t\<lparr>NumPeak := v\<rparr>, None)"
  "setField U t ''totalCLZ'' v = Inr (t\<lparr>TotalCLZ := v\<rparr>, None)"
  "setField U t ''numCLZCps'' v = Inr (t\<lparr>NumCLZCps := v\<rparr>, None)"
  "setField U t ''totalLimit'' v = Inr (t\<lparr>TotalLimit := v\<rparr>, None)"
  "setField U t ''cpsLimit'' v = Inr (t\<lparr>CpsLimit := v\<rparr>, None)"
  by (simp_all add: setField_def string_eval FieldByName_def trunkFields_def CanSet_def)

lemma exampleGroupRow_assembly:
  "Collect_setFields id Trunk0 (row_Field exampleGroupRow) = ([], Inr exampleGroupTrunk)"
  by (simp add: exampleGroupRow_def exampleGroupTrunk_def Trunk0_def setField_wire)

lemma example_assembly:
  "Collect_setFields id Trunk0 (row_Field exampleTrunkRow) = ([], Inr exampleTrunk)"
  by (simp add: exampleTrunkRow_def exampleTrunk_def Trunk0_def setField_wire)

lemma exampleGroupRow_alone:
  "Collect_trunkRow id exampleParseFloat exampleGroupRow =
     (map (trunkCounterMetric exampleParseFloat exampleGroupTrunk)
        (trunkCounters exampleGroupTrunk), None)"
proof -
  have "ValidString (TrunkId exampleGroupTrunk)" "ValidString (Alias exampleGroupTrunk)"
    by (simp_all add: exampleGroupTrunk_def ValidString_def)
  moreover have "Fqdn exampleGroupTrunk = ''Group''"
    by (simp add: exampleGroupTrunk_def)
  ultimately show ?thesis
    by (simp add: Collect_trunkRow_def exampleGroupRow_assembly addTrunkMetrics_char)
qed

text \<open>
  C1. The claim: every row of a table named XBResourceRealTimeStatList whose assembled
  Fqdn is "Group" and whose eight counters parse yields eight labelled gauges. Processed
  on its own, the row \<open>exampleGroupRow\<close> does yield its eight gauges; in a table where a
  row with a nameless field stands before it, the row loop ends in the panic of setField
  and the row yields nothing.
\<close>

theorem group_row_lost_after_panic:
  "Collect_trunkRow id exampleParseFloat exampleGroupRow =
     (map (trunkCounterMetric exampleParseFloat exampleGroupTrunk)
        (trunkCounters exampleGroupTrunk), None) \<and>
   length (filter isGauge (fst (Collect_trunkRow id exampleParseFloat exampleGroupRow))) = 8 \<and>
   Collect_trunkRows id exampleParseFloat (table_Row exampleBrokenTrunkTable) =
     ([], Some IndexOutOfRange) \<and>
   Collect_table id exampleParseFloat exampleBrokenTrunkTable = ([], Some IndexOutOfRange)"
proof -
  have a: "length (filter isGauge (map (trunkCounterMetric exampleParseFloat exampleGroupTrunk)
        (trunkCounters exampleGroupTrunk))) = 8"
    by (simp add: trunkCounters_def trunkCounterMetric_def exampleGroupTrunk_def
        exampleParseFloat_def)
  have b: "Collect_trunkRow id exampleParseFloat exampleNamelessRow = ([], Some IndexOutOfRange)"
    by (simp add: Collect_trunkRow_def exampleNamelessRow_def setField_def upperFirst_def)
  have c: "Collect_trunkRows id exampleParseFloat (table_Row exampleBrokenTrunkTable) =
     ([], Some IndexOutOfRange)"
    by (simp add: exampleBrokenTrunkTable_def b seqPanic_def)
  have d: "Collect_table id exampleParseFloat exampleBrokenTrunkTable = ([], Some IndexOutOfRange)"
    using c by (simp add: Collect_table_def) (simp add: exampleBrokenTrunkTable_def)
  from exampleGroupRow_alone a c d show ?thesis by simp
qed

section \<open>The field mapper\<close>

text \<open>
  C4. The claim: for every record, field name and value, the empty field name included,
  setField and getField return an error when no attribute matches, and do not crash.
  On the empty name both functions index an empty rune slice and panic; in Collect the
  panic ends the row, and the cycle, before the remaining fields are looked at.
\<close>

theorem empty_field_name_panics:
  "setField U t [] v = Inl IndexOutOfRange \<and> getField U t [] = Inl IndexOutOfRange \<and>
   Collect_trunkRow U ParseFloat
     \<lparr>row_Field = [\<lparr>field_Text = ''7'', field_Name = []\<rparr>,
                   \<lparr>field_Text = ''Group'', field_Name = ''fqdn''\<rparr>]\<rparr> = ([], Some IndexOutOfRange)"
  by (simp add: setField_def getField_def upperFirst_def Collect_trunkRow_def)

text \<open>
  C10. For every trunk record \<open>t\<close>, every non-empty field name whose capitalised form
  \<open>n\<close> is the name of an attribute \<open>f\<close>, and every value \<open>v\<close>: setField succeeds, the
  record after it holds \<open>v\<close> in \<open>f\<close> and its old text in every other attribute; getField
  returns the text of \<open>f\<close> and leaves the record as it was.
\<close>

theorem setField_getField_frame:
  assumes "name \<noteq> []" and "upperFirst U name = Inr n" and "fieldName f = n"
  shows "(\<exists>t'. setField U t name v = Inr (t', None) \<and> String f t' = v \<and>
            (\<forall>g. g \<noteq> f \<longrightarrow> String g t' = String g t)) \<and>
         getField U t name = Inr (t, String f t, None)"
proof -
  from assms have up: "upperFirst U name = Inr (fieldName f)" by simp
  have "setField U t name v = Inr (SetString f v t, None)"
    by (rule setField_match[OF up])
  moreover have "String f (SetString f v t) = v"
    by (simp add: String_SetString)
  moreover have "\<forall>g. g \<noteq> f \<longrightarrow> String g (SetString f v t) = String g t"
    by (simp add: String_SetString)
  moreover have "getField U t name = Inr (t, String f t, None)"
    by (rule getField_match[OF up])
  ultimately show ?thesis by blast
qed

theorem setField_getField_frame_witness:
  "''numOrig'' \<noteq> [] \<and> upperFirst id ''numOrig'' = Inr ''NumOrig'' \<and>
   fieldName F_NumOrig = ''NumOrig'' \<and>
   setField id Trunk0 ''numOrig'' ''42'' = Inr (Trunk0\<lparr>NumOrig := ''42''\<rparr>, None) \<and>
   Alias (Trunk0\<lparr>NumOrig := ''42''\<rparr>) = Alias Trunk0 \<and>
   getField id (Trunk0\<lparr>NumOrig := ''42''\<rparr>) ''numOrig'' =
     Inr (Trunk0\<lparr>NumOrig := ''42''\<rparr>, ''42'', None)"
proof -
  have h1: "''numOrig'' \<noteq> []" by simp
  have h2: "upperFirst id ''numOrig'' = Inr ''NumOrig''" by (simp add: string_eval)
  have h3: "fieldName F_NumOrig = ''NumOrig''" by simp
  from setField_getField_frame[OF h1 h2 h3, of Trunk0 "''42''"]
       setField_getField_frame[OF h1 h2 h3, of "Trunk0\<lparr>NumOrig := ''42''\<rparr>" "''42''"]
  have "setField id Trunk0 ''numOrig'' ''42'' = Inr (Trunk0\<lparr>NumOrig := ''42''\<rparr>, None)"
    and "getField id (Trunk0\<lparr>NumOrig := ''42''\<rparr>) ''numOrig'' =
           Inr (Trunk0\<lparr>NumOrig := ''42''\<rparr>, ''42'', None)"
    by (simp_all add: setField_match[OF h2[folded h3]])
  with h1 h2 h3 show ?thesis by simp
qed

section \<open>Tables\<close>

lemma Collect_tables_append:
  "Collect_tables U pf (ts1 @ ts2) = seqPanic (Collect_tables U pf ts1) (Collect_tables U pf ts2)"
  by (induction ts1) (simp_all add: seqPanic_Nil_left seqPanic_assoc)

text \<open>A walk that returns sends the metrics of its rows, and of its tables, one after
  the other.\<close>

lemma Collect_trunkRows_concat:
  "snd (Collect_trunkRows U pf rows) = None \<Longrightarrow>
   fst (Collect_trunkRows U pf rows) = concat (map (\<lambda>row. fst (Collect_trunkRow U pf row)) rows)"
  by (induction rows) (simp_all add: seqPanic_None, simp add: seqPanic_def)

lemma Collect_tables_concat:
  "snd (Collect_tables U pf ts) = None \<Longrightarrow>
   fst (Collect_tables U pf ts) = concat (map (\<lambda>tb. fst (Collect_table U pf tb)) ts)"
  by (induction ts) (simp_all add: seqPanic_None, simp add: seqPanic_def)

text \<open>
  C7. A table whose name is neither system_stat nor XBResourceRealTimeStatList sends
  nothing, neither metric nor error marker, and does not stop the walk, whatever its rows
  hold: wherever it stands among the tables, the cycle is the same with it and without it.
\<close>

theorem unknown_table_skipped:
  assumes "table_Name tb \<noteq> ''system_stat''" and "table_Name tb \<noteq> ''XBResourceRealTimeStatList''"
  shows "Collect_table U pf tb = ([], None) \<and>
         Collect_tables U pf (ts1 @ tb # ts2) = Collect_tables U pf (ts1 @ ts2)"
proof -
  have t: "Collect_table U pf tb = ([], None)"
    using assms by (simp add: Collect_table_def)
  have "Collect_tables U pf (tb # ts2) = Collect_tables U pf ts2"
    by (simp add: t seqPanic_Nil_left)
  then have "Collect_tables U pf (ts1 @ tb # ts2) = Collect_tables U pf (ts1 @ ts2)"
    by (simp only: Collect_tables_append)
  with t show ?thesis by simp
qed

theorem unknown_table_skipped_witness:
  "table_Name exampleOtherTable \<noteq> ''system_stat'' \<and>
   table_Name exampleOtherTable \<noteq> ''XBResourceRealTimeStatList'' \<and>
   Collect_table id exampleParseFloat exampleOtherTable = ([], None) \<and>
   Collect_tables id exampleParseFloat ([exampleStatTable] @ exampleOtherTable # [exampleTrunkTable]) =
     Collect_tables id exampleParseFloat ([exampleStatTable] @ [exampleTrunkTable])"
proof -
  have a: "table_Name exampleOtherTable \<noteq> ''system_stat''"
    and b: "table_Name exampleOtherTable \<noteq> ''XBResourceRealTimeStatList''"
    by (simp_all add: exampleOtherTable_def)
  from unknown_table_skipped[OF a b, of id exampleParseFloat "[exampleStatTable]" "[exampleTrunkTable]"]
    a b show ?thesis by blast
qed

section \<open>A failed scrape\<close>

lemma exampleEnvDown_scrape:
  "ScrapeTarget exampleEnvDown (target exampleCollector) (username exampleCollector)
     (password exampleCollector) =
   ([(LevelError, ''Error for HTTP request'', ''err'',
      ErrValue (LibError ''dial tcp: connection refused''))],
    Sansay0, Some (LibError ''dial tcp: connection refused''))"
  by (simp add: ScrapeTarget_def exampleEnvDown_def)


text \<open>
  C3. Whenever ScrapeTarget returns an error (the URL, the request, the round trip, the
  reading of the body or the XML decoding failed), Collect sends exactly one sansay_error
  marker carrying that error and nothing else: no gauge, and no duration gauge.
\<close>

theorem scrape_failure_single_error:
  assumes "ScrapeTarget env (target c) (username c) (password c) = (lg, s, Some err)"
  shows "snd (Collect env U pf elapsed c) = ([errorMarker err], None)"
  using assms
  by (simp add: Collect_def errorMarker_def sansay_error_def NewInvalidMetric_def NewDesc_def)

theorem scrape_failure_single_error_witness:
  "ScrapeTarget exampleEnvDown (target exampleCollector) (username exampleCollector)
     (password exampleCollector) =
   ([(LevelError, ''Error for HTTP request'', ''err'',
      ErrValue (LibError ''dial tcp: connection refused''))],
    Sansay0, Some (LibError ''dial tcp: connection refused'')) \<and>
   snd (Collect exampleEnvDown id exampleParseFloat 0 exampleCollector) =
     ([errorMarker (LibError ''dial tcp: connection refused'')], None)"
  using scrape_failure_single_error[OF exampleEnvDown_scrape, of id exampleParseFloat 0]
    exampleEnvDown_scrape
  by simp

section \<open>The status code\<close>

lemma status_code_logged:
  assumes "url_Parse env (ScrapeTarget_target tgt) = None"
    and "http_NewRequest env (ScrapeTarget_target tgt) = None"
    and "client_Do env (ScrapeTarget_target tgt) u p = Inr resp"
  shows "hd (fst (ScrapeTarget env tgt u p)) =
           (LevelInfo, ''Received HTTP response'', ''status_code'', IntValue (StatusCode resp))"
  using assms by (simp add: ScrapeTarget_def Let_def split: prod.splits option.splits)

text \<open>What Collect sends is a function of what ScrapeTarget returns, the log apart.\<close>

lemma Collect_of_scrape:
  assumes "snd (ScrapeTarget env (target c) (username c) (password c)) =
           snd (ScrapeTarget env' (target c) (username c) (password c))"
  shows "snd (Collect env U pf elapsed c) = snd (Collect env' U pf elapsed c)"
proof -
  obtain lg s e where a: "ScrapeTarget env (target c) (username c) (password c) = (lg, s, e)"
    by (cases "ScrapeTarget env (target c) (username c) (password c)")
  obtain lg' s' e' where b: "ScrapeTarget env' (target c) (username c) (password c) = (lg', s', e')"
    by (cases "ScrapeTarget env' (target c) (username c) (password c)")
  from assms a b have "s' = s" "e' = e" by simp_all
  with a b show ?thesis
    by (simp add: Collect_def split: option.splits sum.splits prod.splits)
qed

text \<open>
  C8. Replacing the status code of every response by any other value changes neither
  what ScrapeTarget returns (the document and the error) nor what Collect sends: the
  body is read and decoded whatever the status, which reaches the log only
  (\<open>status_code_logged\<close>).
\<close>

theorem status_code_ignored:
  "snd (ScrapeTarget (withStatus g env) tgt u p) = snd (ScrapeTarget env tgt u p) \<and>
   snd (Collect (withStatus g env) U pf elapsed c) = snd (Collect env U pf elapsed c)"
proof -
  have a: "snd (ScrapeTarget (withStatus g env) tgt u p) = snd (ScrapeTarget env tgt u p)" for tgt u p
    by (simp add: ScrapeTarget_def withStatus_def Let_def split: option.splits sum.splits prod.splits)
  from a Collect_of_scrape[OF a] show ?thesis by simp
qed

section \<open>The target\<close>

lemma HasPrefix_split: "HasPrefix s pre \<Longrightarrow> \<exists>r. s = pre @ r"
  by (metis HasPrefix_def append_take_drop_id)

lemma http_hasScheme: "HasPrefix t ''http://'' \<Longrightarrow> spec_hasScheme t"
proof -
  assume "HasPrefix t ''http://''"
  then obtain r where "t = ''http://'' @ r" using HasPrefix_split by blast
  then show ?thesis
    by (simp add: spec_hasScheme_def isSchemeChar_def isAlpha_def HasPrefix_def)
qed

lemma https_hasScheme: "HasPrefix t ''https://'' \<Longrightarrow> spec_hasScheme t"
proof -
  assume "HasPrefix t ''https://''"
  then obtain r where "t = ''https://'' @ r" using HasPrefix_split by blast
  then show ?thesis
    by (simp add: spec_hasScheme_def isSchemeChar_def isAlpha_def HasPrefix_def)
qed

lemma ScrapeTarget_env_cong:
  assumes "url_Parse env (ScrapeTarget_target t) = url_Parse env' (ScrapeTarget_target t)"
    and "http_NewRequest env (ScrapeTarget_target t) = http_NewRequest env' (ScrapeTarget_target t)"
    and "client_Do env (ScrapeTarget_target t) u p = client_Do env' (ScrapeTarget_target t) u p"
    and "xml_Unmarshal env = xml_Unmarshal env'"
  shows "ScrapeTarget env t u p = ScrapeTarget env' t u p"
  using assms by (simp add: ScrapeTarget_def Let_def split: option.splits sum.splits)

text \<open>
  C9, as the claim states it, fails: a target that has a scheme other than the two the
  code looks for is prefixed all the same.
\<close>

theorem other_scheme_counterexample:
  "spec_hasScheme ''ftp://sbc'' \<and> ScrapeTarget_target ''ftp://sbc'' \<noteq> ''ftp://sbc'' \<and>
   ScrapeTarget_target ''ftp://sbc'' = ''http://ftp://sbc''"
  by (simp add: spec_hasScheme_def isSchemeChar_def isAlpha_def HasPrefix_def ScrapeTarget_target_def)

text \<open>
  C9, amended. A target that starts with neither "http://" nor "https://" (every target
  without a scheme is one) is prefixed with "http://"; a target that starts with one of
  the two is used as it is. The URL check, the request and the round trip are all made
  with the resulting target: the fetch depends on the environment at that target only.
\<close>

theorem target_prefix:
  "(\<not> HasPrefix t ''http://'' \<and> \<not> HasPrefix t ''https://'' \<longrightarrow>
      ScrapeTarget_target t = ''http://'' @ t) \<and>
   (HasPrefix t ''http://'' \<or> HasPrefix t ''https://'' \<longrightarrow> ScrapeTarget_target t = t) \<and>
   (\<not> spec_hasScheme t \<longrightarrow> ScrapeTarget_target t = ''http://'' @ t) \<and>
   (url_Parse env (ScrapeTarget_target t) = url_Parse env' (ScrapeTarget_target t) \<and>
    http_NewRequest env (ScrapeTarget_target t) = http_NewRequest env' (ScrapeTarget_target t) \<and>
    client_Do env (ScrapeTarget_target t) u p = client_Do env' (ScrapeTarget_target t) u p \<and>
    xml_Unmarshal env = xml_Unmarshal env' \<longrightarrow>
      ScrapeTarget env t u p = ScrapeTarget env' t u p)"
proof -
  have a: "\<not> HasPrefix t ''http://'' \<and> \<not> HasPrefix t ''https://'' \<longrightarrow>
      ScrapeTarget_target t = ''http://'' @ t"
    by (simp add: ScrapeTarget_target_def)
  have b: "HasPrefix t ''http://'' \<or> HasPrefix t ''https://'' \<longrightarrow> ScrapeTarget_target t = t"
    by (auto simp add: ScrapeTarget_target_def)
  have c: "\<not> spec_hasScheme t \<longrightarrow> ScrapeTarget_target t = ''http://'' @ t"
    using a http_hasScheme[of t] https_hasScheme[of t] by blast
  from a b c ScrapeTarget_env_cong[of env t env' u p] show ?thesis by blast
qed

theorem target_prefix_witness:
  "\<not> HasPrefix ''sbc.example.net'' ''http://'' \<and> \<not> HasPrefix ''sbc.example.net'' ''https://'' \<and>
   \<not> spec_hasScheme ''sbc.example.net'' \<and>
   ScrapeTarget_target ''sbc.example.net'' = ''http://sbc.example.net'' \<and>
   HasPrefix ''https://sbc'' ''https://'' \<and> ScrapeTarget_target ''https://sbc'' = ''https://sbc''"
proof -
  have h: "\<not> HasPrefix ''sbc.example.net'' ''http://'' \<and> \<not> HasPrefix ''sbc.example.net'' ''https://''"
    by (simp add: HasPrefix_def)
  have s: "\<not> spec_hasScheme ''sbc.example.net''"
    by (simp add: spec_hasScheme_def isSchemeChar_def isAlpha_def HasPrefix_def)
  have k: "HasPrefix ''https://sbc'' ''https://''"
    by (simp add: HasPrefix_def)
  from target_prefix[of "''sbc.example.net''" exampleEnvDown exampleEnvDown "[]" "[]"] h
  have a: "ScrapeTarget_target ''sbc.example.net'' = ''http://sbc.example.net''" by simp
  from target_prefix[of "''https://sbc''" exampleEnvDown exampleEnvDown "[]" "[]"] k
  have b: "ScrapeTarget_target ''https://sbc'' = ''https://sbc''" by blast
  from h s k a b show ?thesis by blast
qed

section \<open>Fields that share a name\<close>

lemma setField_cases:
  assumes "name \<noteq> []"
  shows "\<exists>n. upperFirst U name = Inr n \<and>
     (case FieldByName n of
        None \<Rightarrow> setField U t name v = Inr (t, Some (Errorf (''not a field name: '' @ n)))
      | Some f \<Rightarrow> fieldName f = n \<and> setField U t name v = Inr (SetString f v t, None))"
proof -
  from assms obtain n where n: "upperFirst U name = Inr n"
    using upperFirst_Inr_iff[of U name] by blast
  show ?thesis
  proof (cases "FieldByName n")
    case None
    with n show ?thesis by (simp add: setField_nomatch)
  next
    case (Some f)
    then have fn: "fieldName f = n" by (rule FieldByName_Some)
    with n have "setField U t name v = Inr (SetString f v t, None)"
      by (simp add: setField_match)
    with n Some fn show ?thesis by simp
  qed
qed

text \<open>What one call of setField does to the attribute \<open>f\<close>, whether it succeeds or
  returns an error.\<close>

lemma setField_String:
  assumes "setField U t name v = Inr (t', eo)"
  shows "String f t' = (if upperFirst U name = Inr (fieldName f) then v else String f t)"
proof -
  from assms have ne: "name \<noteq> []"
    by (auto simp: setField_def upperFirst_Nil)
  from setField_cases[OF ne, of U t v] obtain n where n: "upperFirst U name = Inr n"
    and c: "(case FieldByName n of
        None \<Rightarrow> setField U t name v = Inr (t, Some (Errorf (''not a field name: '' @ n)))
      | Some f \<Rightarrow> fieldName f = n \<and> setField U t name v = Inr (SetString f v t, None))"
    by blast
  show ?thesis
  proof (cases "FieldByName n")
    case None
    with c assms have "t' = t" by simp
    moreover have "n \<noteq> fieldName f"
    proof
      assume "n = fieldName f"
      then have "FieldByName n = Some f" by (simp only: FieldByName_fieldName)
      with None show False by simp
    qed
    ultimately show ?thesis using n by simp
  next
    case (Some g)
    with c assms have t': "t' = SetString g v t" and gn: "fieldName g = n" by simp_all
    have "fieldName f = n \<longleftrightarrow> f = g"
    proof
      assume "fieldName f = n"
      then have "FieldByName n = Some f" using FieldByName_fieldName[of f] by (simp only:)
      with Some show "f = g" by simp
    next
      assume "f = g"
      with gn show "fieldName f = n" by (simp only:)
    qed
    with t' n show ?thesis by (auto simp: String_SetString)
  qed
qed

lemma exampleDuplicateRow_assembly:
  "Collect_setFields id Trunk0 exampleDuplicateRow =
     (([] :: int Metric list), Inr (Trunk0\<lparr>Fqdn := ''Member''\<rparr>))"
  by (simp add: exampleDuplicateRow_def setField_def string_eval FieldByName_def trunkFields_def
      CanSet_def)

text \<open>
  C5, as the claim states it, fails: in a row with two fields named fqdn the assembled
  record holds the text of the second one, not of the first.
\<close>

theorem first_match_counterexample:
  "Collect_setFields id Trunk0 exampleDuplicateRow =
     (([] :: int Metric list), Inr (Trunk0\<lparr>Fqdn := ''Member''\<rparr>)) \<and>
   Fqdn (Trunk0\<lparr>Fqdn := ''Member''\<rparr>) \<noteq> field_Text (hd exampleDuplicateRow)"
  using exampleDuplicateRow_assembly by (simp add: exampleDuplicateRow_def)

text \<open>
  C5, amended. When a row contains several fields with the same name, the last one is
  authoritative: after the assembly of a row, every attribute of the record holds the
  text of the last field of the row whose capitalised name is the attribute's name, and
  its initial text when the row has no such field.
\<close>

theorem last_match_wins:
  fixes es :: "'f Metric list"
  assumes "Collect_setFields U t0 fs = (es, Inr t)"
  shows "String f t =
     (case filter (\<lambda>fld. upperFirst U (field_Name fld) = Inr (fieldName f)) fs of
        [] \<Rightarrow> String f t0
      | m # ms \<Rightarrow> field_Text (last (m # ms)))"
  using assms
proof (induction fs arbitrary: t0 es)
  case Nil
  then show ?case by simp
next
  case (Cons x xs)
  let ?P = "\<lambda>fld. upperFirst U (field_Name fld) = Inr (fieldName f)"
  from Cons.prems obtain t1 eo where sf: "setField U t0 (field_Name x) (field_Text x) = Inr (t1, eo)"
    by (cases "setField U t0 (field_Name x) (field_Text x)") auto
  obtain es1 :: "'f Metric list" and r1 where rec: "Collect_setFields U t1 xs = (es1, r1)"
    by (cases "Collect_setFields U t1 xs :: 'f Metric list \<times> (panic + Trunk)")
  from Cons.prems sf rec have r1: "r1 = Inr t"
    by (cases eo) (simp_all add: sendThen_def)
  from Cons.IH[OF rec[unfolded r1]]
  have ih: "String f t =
      (case filter ?P xs of [] \<Rightarrow> String f t1 | m # ms \<Rightarrow> field_Text (last (m # ms)))" .
  from setField_String[OF sf, of f]
  have s1: "String f t1 = (if ?P x then field_Text x else String f t0)" .
  show ?case
    using ih s1 by (cases "filter ?P xs") (simp_all)
qed

theorem last_match_wins_witness:
  "Collect_setFields id Trunk0 exampleDuplicateRow =
     (([] :: int Metric list), Inr (Trunk0\<lparr>Fqdn := ''Member''\<rparr>)) \<and>
   String F_Fqdn (Trunk0\<lparr>Fqdn := ''Member''\<rparr>) = field_Text (last exampleDuplicateRow)"
  using last_match_wins[OF exampleDuplicateRow_assembly, of F_Fqdn] exampleDuplicateRow_assembly
  by (simp add: exampleDuplicateRow_def string_eval)

section \<open>The duration gauge\<close>

























end
